theory Spec2Isabelle
  imports Complex_Main "HOL-Library.Multiset"
begin

section \<open>Values of the notebook\<close>

text \<open>
  The notebook \<^verbatim>\<open>day1/notebooks/svm_SDSS.ipynb\<close> has no functions of its own: each
  code cell binds variables computed from earlier ones with NumPy, h5py and astropy
  operations. Every variable a property is about is modelled as a function of the
  variables its cell reads, under the variable's own name; the library operations
  (\<^verbatim>\<open>A[mask, :]\<close>, \<^verbatim>\<open>A[:, j]\<close>, \<^verbatim>\<open>np.sum(A, axis=0)\<close>, slices, comparisons)
  are modelled once each, and an exception is a value \<open>Inl e\<close>.
\<close>

datatype py_error =
    NameError string
  | AttributeError
  | IndexError
  | ValueError
  | TypeError
  | NotFittedError

text \<open>
  A two-dimensional array: its second dimension and its rows, in row order. The first
  dimension is the number of rows. An array with no row still has its width, as the
  shape \<open>(0, P)\<close> has.
\<close>

record 'a ndarray2 =
  ncols :: nat
  rows :: "'a list list"

definition rectangular :: "'a ndarray2 \<Rightarrow> bool" where
  "rectangular A \<longleftrightarrow> list_all (\<lambda>r. length r = ncols A) (rows A)"

section \<open>Reading rows by a boolean mask and co-adding them\<close>

text \<open>
  \<^verbatim>\<open>A[mask, :]\<close>: the rows of \<open>A\<close> at which the mask is true, in their order.
  A mask whose length is not the number of rows is an error. The read of an h5py dataset
  is taken to follow NumPy's rules for a boolean mask, also when no entry is true.
\<close>

definition getitem_mask :: "'a ndarray2 \<Rightarrow> bool list \<Rightarrow> py_error + 'a ndarray2" where
  "getitem_mask A msk =
     (if length msk \<noteq> length (rows A) then Inl IndexError
      else Inr \<lparr>ncols = ncols A, rows = map fst (filter snd (zip (rows A) msk))\<rparr>)"

text \<open>
  \<^verbatim>\<open>np.sum(A, axis=0)\<close>: the rows are added up one after the other, element by
  element, starting from the zero vector of the array's width. The elements are taken in
  any commutative monoid: the integers, the machine integers (\<open>'w word\<close>, where the
  sum wraps) and exact numbers are instances. The rounding of a floating-point sum is
  not part of the model.
\<close>

definition np_sum_axis0 :: "'a::comm_monoid_add ndarray2 \<Rightarrow> 'a list" where
  "np_sum_axis0 A = foldl (map2 (+)) (replicate (ncols A) 0) (rows A)"

text \<open>
  \<^verbatim>\<open>color_cut_flux = f['flux'][color_cut, :]\<close>,
  \<^verbatim>\<open>color_cut_ivar = f['ivar'][color_cut, :]\<close> and
  \<^verbatim>\<open>color_cut_coadd = np.sum(color_cut_flux, axis=0)\<close>,
  as functions of the dataset and of the mask.
\<close>

definition color_cut_flux :: "'a ndarray2 \<Rightarrow> bool list \<Rightarrow> py_error + 'a ndarray2" where
  "color_cut_flux flux color_cut = getitem_mask flux color_cut"

definition color_cut_ivar :: "'a ndarray2 \<Rightarrow> bool list \<Rightarrow> py_error + 'a ndarray2" where
  "color_cut_ivar ivar color_cut = getitem_mask ivar color_cut"

definition color_cut_coadd :: "'a::comm_monoid_add ndarray2 \<Rightarrow> bool list \<Rightarrow> py_error + 'a list" where
  "color_cut_coadd flux color_cut =
     (case color_cut_flux flux color_cut of
        Inl e \<Rightarrow> Inl e
      | Inr selected \<Rightarrow> Inr (np_sum_axis0 selected))"

text \<open>The indices at which a mask is true, in increasing order (\<^verbatim>\<open>np.nonzero\<close>).\<close>

definition nonzero :: "bool list \<Rightarrow> nat list" where
  "nonzero msk = filter (\<lambda>i. msk ! i) [0..<length msk]"

section \<open>Magnitudes, colours and the colour cut\<close>

text \<open>
  A floating-point value as far as the comparisons of the notebook see it: not-a-number,
  the two infinities, or a finite number. Rounding is not modelled.
\<close>

datatype npfloat = NaN | NegInf | Fin real | PosInf

text \<open>Subtraction: not-a-number propagates, and so does the difference of equal infinities.\<close>

fun fsub :: "npfloat \<Rightarrow> npfloat \<Rightarrow> npfloat" where
  "fsub NaN _ = NaN"
| "fsub _ NaN = NaN"
| "fsub PosInf PosInf = NaN"
| "fsub NegInf NegInf = NaN"
| "fsub PosInf _ = PosInf"
| "fsub NegInf _ = NegInf"
| "fsub (Fin a) PosInf = NegInf"
| "fsub (Fin a) NegInf = PosInf"
| "fsub (Fin a) (Fin b) = Fin (a - b)"

text \<open>\<^verbatim>\<open>v > c\<close> and \<^verbatim>\<open>v < c\<close> for a number \<open>c\<close>: false on not-a-number, never an error.\<close>

fun fgt :: "npfloat \<Rightarrow> real \<Rightarrow> bool" where
  "fgt NaN c = False"
| "fgt NegInf c = False"
| "fgt (Fin a) c = (a > c)"
| "fgt PosInf c = True"

fun flt :: "npfloat \<Rightarrow> real \<Rightarrow> bool" where
  "flt NaN c = False"
| "flt NegInf c = True"
| "flt (Fin a) c = (a < c)"
| "flt PosInf c = False"

text \<open>Sequencing of steps that may raise: the first error ends the computation.\<close>

definition and_then :: "py_error + 'a \<Rightarrow> ('a \<Rightarrow> py_error + 'b) \<Rightarrow> py_error + 'b" where
  "and_then r f = (case r of Inl e \<Rightarrow> Inl e | Inr v \<Rightarrow> f v)"

text \<open>
  A binary element-wise operation on one-dimensional arrays: equal lengths pair up, an
  array of length one is broadcast, any other pair of lengths is an error.
\<close>

definition broadcast2 :: "('a \<Rightarrow> 'b \<Rightarrow> 'c) \<Rightarrow> 'a list \<Rightarrow> 'b list \<Rightarrow> py_error + 'c list" where
  "broadcast2 f xs ys =
     (if length xs = length ys then Inr (map2 f xs ys)
      else if length xs = 1 then Inr (map (f (hd xs)) ys)
      else if length ys = 1 then Inr (map (\<lambda>x. f x (hd ys)) xs)
      else Inl ValueError)"

text \<open>\<^verbatim>\<open>arr > c\<close> and \<^verbatim>\<open>arr < c\<close>, element by element.\<close>

definition np_gt :: "npfloat list \<Rightarrow> real \<Rightarrow> bool list" where
  "np_gt xs c = map (\<lambda>x. fgt x c) xs"

definition np_lt :: "npfloat list \<Rightarrow> real \<Rightarrow> bool list" where
  "np_lt xs c = map (\<lambda>x. flt x c) xs"

text \<open>\<^verbatim>\<open>A[:, j]\<close>: column \<open>j\<close> of the array; an error when the array is not that wide.\<close>

definition getitem_col :: "'a ndarray2 \<Rightarrow> nat \<Rightarrow> py_error + 'a list" where
  "getitem_col A j =
     (if j < ncols A then Inr (map (\<lambda>r. r ! j) (rows A)) else Inl IndexError)"

text \<open>
  \<^verbatim>\<open>g_r = photoPos['PSFMAG'][:,1] - photoPos['PSFMAG'][:,2]\<close> and
  \<^verbatim>\<open>r_i = photoPos['PSFMAG'][:,2] - photoPos['PSFMAG'][:,3]\<close>,
  as functions of the magnitude column.
\<close>

definition g_r :: "npfloat ndarray2 \<Rightarrow> py_error + npfloat list" where
  "g_r PSFMAG =
     and_then (getitem_col PSFMAG 1) (\<lambda>g.
     and_then (getitem_col PSFMAG 2) (\<lambda>r.
     broadcast2 fsub g r))"

definition r_i :: "npfloat ndarray2 \<Rightarrow> py_error + npfloat list" where
  "r_i PSFMAG =
     and_then (getitem_col PSFMAG 2) (\<lambda>r.
     and_then (getitem_col PSFMAG 3) (\<lambda>i.
     broadcast2 fsub r i))"

text \<open>
  \<^verbatim>\<open>color_cut = (g_r > 0.45) & (g_r < 0.55) & (r_i > 0.) & (r_i < 0.4)\<close>,
  as a function of the two colour arrays (\<open>gr\<close> and \<open>ri\<close> stand for the values of
  the variables \<^verbatim>\<open>g_r\<close> and \<^verbatim>\<open>r_i\<close>); \<^verbatim>\<open>&\<close> associates to the left.
\<close>

definition color_cut :: "npfloat list \<Rightarrow> npfloat list \<Rightarrow> py_error + bool list" where
  "color_cut gr ri =
     and_then (broadcast2 (\<and>) (np_gt gr 0.45) (np_lt gr 0.55)) (\<lambda>m1.
     and_then (broadcast2 (\<and>) m1 (np_gt ri 0)) (\<lambda>m2.
     broadcast2 (\<and>) m2 (np_lt ri 0.4)))"

text \<open>The two cells in sequence: the colour cut as a function of the magnitude column.\<close>

definition color_cut_of :: "npfloat ndarray2 \<Rightarrow> py_error + bool list" where
  "color_cut_of PSFMAG =
     and_then (g_r PSFMAG) (\<lambda>gr.
     and_then (r_i PSFMAG) (\<lambda>ri.
     color_cut gr ri))"

section \<open>Slices, labels, features and the classifier cells\<close>

text \<open>
  \<^verbatim>\<open>a[:t]\<close> and \<^verbatim>\<open>a[t:]\<close> along the first axis, with Python's rules: a negative
  bound counts from the end, and a bound outside the array is clipped.
\<close>

definition slice_bound :: "int \<Rightarrow> nat \<Rightarrow> nat" where
  "slice_bound t n = nat (if t < 0 then int n + t else t)"

definition slice_stop :: "int \<Rightarrow> 'a list \<Rightarrow> 'a list" where
  "slice_stop t xs = take (slice_bound t (length xs)) xs"

definition slice_start :: "int \<Rightarrow> 'a list \<Rightarrow> 'a list" where
  "slice_start t xs = drop (slice_bound t (length xs)) xs"

definition rows_stop :: "int \<Rightarrow> 'a ndarray2 \<Rightarrow> 'a ndarray2" where
  "rows_stop t A = \<lparr>ncols = ncols A, rows = slice_stop t (rows A)\<rparr>"

definition rows_start :: "int \<Rightarrow> 'a ndarray2 \<Rightarrow> 'a ndarray2" where
  "rows_start t A = \<lparr>ncols = ncols A, rows = slice_start t (rows A)\<rparr>"

text \<open>\<^verbatim>\<open>t_size = 70000\<close>\<close>

definition t_size :: int where
  "t_size = 70000"

text \<open>
  \<^verbatim>\<open>non_matching = np.sum(predict != y[t_size:])\<close>, as a function of the predictions,
  of the label vector and of the value \<open>t\<close> of \<^verbatim>\<open>t_size\<close>.
\<close>

definition non_matching :: "int list \<Rightarrow> int list \<Rightarrow> int \<Rightarrow> py_error + int" where
  "non_matching predict y t =
     and_then (broadcast2 (\<noteq>) predict (slice_start t y)) (\<lambda>differ.
     Inr (int (count_list differ True)))"

text \<open>
  The two catalogue tables, with the columns the modelled cells read: the class of each
  source (\<^verbatim>\<open>"STAR"\<close>, \<^verbatim>\<open>"QSO"\<close> or \<^verbatim>\<open>"GALAXY"\<close>), and the magnitudes of each
  source, one row for each. The number of rows of a table is the length of its columns.
\<close>

record spec_table =
  CLASS :: "string list"

record photo_table =
  PSFMAG :: "npfloat ndarray2"

text \<open>
  \<^verbatim>\<open>[1 if specObj['CLASS'][i] == 'STAR' else 0 for i in range(len(specObj))]\<close>:
  \<open>class_labels\<close> is the comprehension with the literal it compares with as a
  parameter, and \<open>y\<close> is the notebook's variable, where the literal is \<^verbatim>\<open>'STAR'\<close>.
  \<^verbatim>\<open>X = photoPos['PSFMAG']\<close> is the magnitude column itself.
\<close>

definition class_labels :: "string \<Rightarrow> string list \<Rightarrow> int list" where
  "class_labels positive cls = map (\<lambda>i. if cls ! i = positive then 1 else 0) [0..<length cls]"

definition y :: "spec_table \<Rightarrow> int list" where
  "y specObj = class_labels ''STAR'' (CLASS specObj)"

definition X :: "photo_table \<Rightarrow> npfloat ndarray2" where
  "X photoPos = PSFMAG photoPos"

text \<open>
  The global namespace of the kernel: a name is bound to a value or unbound, and reading
  an unbound name is a \<open>NameError\<close>. The classifier is the external library's: \<open>'m\<close>
  is its fitted state, and its two operations are parameters of the cells that call them.
\<close>

datatype 'm pyval =
    VSpecObj spec_table
  | VPhotoPos photo_table
  | VArr2 "npfloat ndarray2"
  | VLabels "int list"
  | VInt int
  | VClf "'m option"
  | VOther

type_synonym 'm namespace = "string \<rightharpoonup> 'm pyval"

definition lookup :: "'m namespace \<Rightarrow> string \<Rightarrow> py_error + 'm pyval" where
  "lookup ns name = (case ns name of None \<Rightarrow> Inl (NameError name) | Some v \<Rightarrow> Inr v)"

text \<open>\<^verbatim>\<open>v[:t]\<close> and \<^verbatim>\<open>v[t:]\<close> on the values of the namespace.\<close>

fun getitem_stop :: "'m pyval \<Rightarrow> 'm pyval \<Rightarrow> py_error + 'm pyval" where
  "getitem_stop (VArr2 A) (VInt t) = Inr (VArr2 (rows_stop t A))"
| "getitem_stop (VLabels l) (VInt t) = Inr (VLabels (slice_stop t l))"
| "getitem_stop _ _ = Inl TypeError"

fun getitem_start :: "'m pyval \<Rightarrow> 'm pyval \<Rightarrow> py_error + 'm pyval" where
  "getitem_start (VArr2 A) (VInt t) = Inr (VArr2 (rows_start t A))"
| "getitem_start (VLabels l) (VInt t) = Inr (VLabels (slice_start t l))"
| "getitem_start _ _ = Inl TypeError"

text \<open>The calls into the classifier: \<^verbatim>\<open>clf.fit(features, labels)\<close> and \<^verbatim>\<open>clf.predict(features)\<close>.\<close>

fun call_fit :: "(npfloat ndarray2 \<Rightarrow> int list \<Rightarrow> py_error + 'm) \<Rightarrow> 'm pyval \<Rightarrow> 'm pyval
    \<Rightarrow> py_error + 'm" where
  "call_fit fit (VArr2 A) (VLabels l) = fit A l"
| "call_fit fit _ _ = Inl TypeError"

fun call_predict :: "('m \<Rightarrow> npfloat ndarray2 \<Rightarrow> py_error + int list) \<Rightarrow> 'm option \<Rightarrow> 'm pyval
    \<Rightarrow> py_error + int list" where
  "call_predict predict (Some m) (VArr2 A) = predict m A"
| "call_predict predict None _ = Inl NotFittedError"
| "call_predict predict _ _ = Inl TypeError"

text \<open>
  What a cell needs of a value it has read: a table is indexed by a column name, a
  classifier has the methods \<^verbatim>\<open>fit\<close> and \<^verbatim>\<open>predict\<close>, the operands of
  \<^verbatim>\<open>!=\<close> are arrays and a slice bound is an integer.
\<close>

fun as_spec_table :: "'m pyval \<Rightarrow> py_error + spec_table" where
  "as_spec_table (VSpecObj t) = Inr t"
| "as_spec_table _ = Inl TypeError"

fun as_photo_table :: "'m pyval \<Rightarrow> py_error + photo_table" where
  "as_photo_table (VPhotoPos t) = Inr t"
| "as_photo_table _ = Inl TypeError"

fun as_clf :: "'m pyval \<Rightarrow> py_error + 'm option" where
  "as_clf (VClf fitted) = Inr fitted"
| "as_clf _ = Inl AttributeError"

fun as_labels :: "'m pyval \<Rightarrow> py_error + int list" where
  "as_labels (VLabels l) = Inr l"
| "as_labels _ = Inl TypeError"

fun as_int :: "'m pyval \<Rightarrow> py_error + int" where
  "as_int (VInt t) = Inr t"
| "as_int _ = Inl TypeError"

text \<open>\<^verbatim>\<open>from sklearn import svm\<close>, \<^verbatim>\<open>clf = svm.SVC()\<close>\<close>

definition cell_clf :: "'m namespace \<Rightarrow> py_error + 'm namespace" where
  "cell_clf ns = Inr (ns(''svm'' \<mapsto> VOther, ''clf'' \<mapsto> VClf None))"

text \<open>
  \<^verbatim>\<open>y = Column([... for i in range(len(specObj))])\<close>, \<^verbatim>\<open>X = photoPos['PSFMAG']\<close>.
  The names are read in the order Python evaluates them.
\<close>

definition cell_y_X :: "'m namespace \<Rightarrow> py_error + 'm namespace" where
  "cell_y_X ns =
     and_then (lookup ns ''Column'') (\<lambda>_.
     and_then (lookup ns ''specObj'') (\<lambda>s.
     and_then (as_spec_table s) (\<lambda>specObj.
     and_then (lookup ns ''photoPos'') (\<lambda>p.
     and_then (as_photo_table p) (\<lambda>photoPos.
     Inr (ns(''y'' \<mapsto> VLabels (y specObj), ''X'' \<mapsto> VArr2 (X photoPos))))))))"

definition cell_t_size :: "'m namespace \<Rightarrow> py_error + 'm namespace" where
  "cell_t_size ns = Inr (ns(''t_size'' \<mapsto> VInt t_size))"

text \<open>\<^verbatim>\<open>clf.fit(X[:t_size], y[:t_size])\<close>\<close>

definition cell_fit :: "(npfloat ndarray2 \<Rightarrow> int list \<Rightarrow> py_error + 'm) \<Rightarrow> 'm namespace
    \<Rightarrow> py_error + 'm namespace" where
  "cell_fit fit ns =
     and_then (lookup ns ''clf'') (\<lambda>c.
     and_then (as_clf c) (\<lambda>_.
     and_then (lookup ns ''X'') (\<lambda>features.
     and_then (lookup ns ''t_size'') (\<lambda>t.
     and_then (getitem_stop features t) (\<lambda>train_features.
     and_then (lookup ns ''y'') (\<lambda>labels.
     and_then (lookup ns ''t_size'') (\<lambda>t'.
     and_then (getitem_stop labels t') (\<lambda>train_labels.
     and_then (call_fit fit train_features train_labels) (\<lambda>m.
     Inr (ns(''clf'' \<mapsto> VClf (Some m))))))))))))"

text \<open>\<^verbatim>\<open>predict = clf.predict(x[t_size:])\<close>: the name read is the lowercase \<^verbatim>\<open>x\<close>.\<close>

definition cell_predict :: "('m \<Rightarrow> npfloat ndarray2 \<Rightarrow> py_error + int list) \<Rightarrow> 'm namespace
    \<Rightarrow> py_error + 'm namespace" where
  "cell_predict predict ns =
     and_then (lookup ns ''clf'') (\<lambda>c.
     and_then (as_clf c) (\<lambda>fitted.
     and_then (lookup ns ''x'') (\<lambda>features.
     and_then (lookup ns ''t_size'') (\<lambda>t.
     and_then (getitem_start features t) (\<lambda>test_features.
     and_then (call_predict predict fitted test_features) (\<lambda>labels.
     Inr (ns(''predict'' \<mapsto> VLabels labels))))))))"

text \<open>\<^verbatim>\<open>non_matching = np.sum(predict != y[t_size:])\<close>\<close>

definition cell_non_matching :: "'m namespace \<Rightarrow> py_error + 'm namespace" where
  "cell_non_matching ns =
     and_then (lookup ns ''np'') (\<lambda>_.
     and_then (lookup ns ''predict'') (\<lambda>p.
     and_then (lookup ns ''y'') (\<lambda>l.
     and_then (lookup ns ''t_size'') (\<lambda>t.
     and_then (as_labels p) (\<lambda>predict.
     and_then (as_labels l) (\<lambda>labels.
     and_then (as_int t) (\<lambda>t'.
     and_then (non_matching predict labels t') (\<lambda>n.
     Inr (ns(''non_matching'' \<mapsto> VInt n))))))))))"

text \<open>The classifier cells, run from top to bottom; the run stops at the first error.\<close>

definition classifier_cells :: "(npfloat ndarray2 \<Rightarrow> int list \<Rightarrow> py_error + 'm)
    \<Rightarrow> ('m \<Rightarrow> npfloat ndarray2 \<Rightarrow> py_error + int list) \<Rightarrow> 'm namespace \<Rightarrow> py_error + 'm namespace" where
  "classifier_cells fit predict ns =
     and_then (cell_clf ns) (\<lambda>ns1.
     and_then (cell_y_X ns1) (\<lambda>ns2.
     and_then (cell_t_size ns2) (\<lambda>ns3.
     and_then (cell_fit fit ns3) (\<lambda>ns4.
     and_then (cell_predict predict ns4) (\<lambda>ns5.
     cell_non_matching ns5)))))"

text \<open>
  The names the cells above the classifier cells bind, in the order of their first
  binding (imports, assignments, loop variables and \<^verbatim>\<open>with ... as\<close> targets), and the
  namespace they leave for the two catalogue tables.
\<close>

definition names_bound_above :: "string list" where
  "names_bound_above =
     [''path'', ''Table'', ''Column'', ''h5py'', ''plt'', ''np'', ''data_path'', ''f'',
      ''wave'', ''flux'', ''ivar'', ''specObj'', ''spec_class'', ''spec_classes'', ''cls'',
      ''bins'', ''photoPos'', ''g_r'', ''r_i'', ''fig'', ''axes'', ''i'', ''color_cut'',
      ''ax'', ''color_cut_flux'', ''color_cut_ivar'', ''color_cut_coadd'']"

definition namespace_above :: "spec_table \<Rightarrow> photo_table \<Rightarrow> 'm namespace" where
  "namespace_above specObj photoPos =
     (map_of (map (\<lambda>name. (name, VOther)) names_bound_above))
       (''specObj'' \<mapsto> VSpecObj specObj, ''photoPos'' \<mapsto> VPhotoPos photoPos)"

section \<open>Lemmas on the sum along the rows\<close>





lemma selected_by_index:
  assumes "length msk = length xs"
  shows "map fst (filter snd (zip xs msk)) = map ((!) xs) (nonzero msk)"
proof -
  have "zip xs msk = map (\<lambda>i. (xs ! i, msk ! i)) [0..<length msk]"
    using assms by (intro nth_equalityI) simp_all
  then have "map fst (filter snd (zip xs msk))
      = map fst (filter snd (map (\<lambda>i. (xs ! i, msk ! i)) [0..<length msk]))"
    by simp
  also have "\<dots> = map ((!) xs) (nonzero msk)"
    by (simp add: filter_map comp_def nonzero_def)
  finally show ?thesis .
qed

lemma nonzero_props:
  "distinct (nonzero msk) \<and> sorted (nonzero msk)
   \<and> set (nonzero msk) = {i. i < length msk \<and> msk ! i}
   \<and> length (nonzero msk) = length (filter (\<lambda>b. b) msk)"
proof -
  have "length (filter (\<lambda>i. msk ! i) [0..<length msk]) = length (filter (\<lambda>b. b) msk)"
  proof -
    have "filter (\<lambda>b. b) msk = filter (\<lambda>b. b) (map ((!) msk) [0..<length msk])"
      by (simp add: map_nth)
    then show ?thesis
      by (simp add: filter_map comp_def)
  qed
  then show ?thesis
    by (auto simp: nonzero_def sorted_wrt_filter)
qed


lemma getitem_mask_by_index:
  "length msk = length (rows A) \<Longrightarrow>
    getitem_mask A msk = Inr \<lparr>ncols = ncols A, rows = map ((!) (rows A)) (nonzero msk)\<rparr>"
  by (simp add: getitem_mask_def selected_by_index)

lemma all_false_selects_nothing:
  "filter snd (zip xs (replicate n False)) = []"
  by (auto simp: filter_empty_conv dest: set_zip_rightD)





section \<open>The co-added spectrum\<close>





text \<open>
  C3. For every flux array of \<open>P\<close> columns, the mask that is false at every row selects
  the array with no row and the same \<open>P\<close> columns, and its co-add is the vector of
  \<open>P\<close> zeros: neither the selection nor the sum raises.
\<close>

theorem coadd_of_empty_selection_is_zero:
  fixes flux :: "'a::comm_monoid_add ndarray2"
  shows "color_cut_flux flux (replicate (length (rows flux)) False)
      = Inr \<lparr>ncols = ncols flux, rows = []\<rparr>
    \<and> color_cut_coadd flux (replicate (length (rows flux)) False)
      = Inr (replicate (ncols flux) 0)"
  by (simp add: color_cut_coadd_def color_cut_flux_def getitem_mask_def np_sum_axis0_def
      all_false_selects_nothing)

section \<open>Row subsets\<close>

text \<open>
  C6. For every array and every boolean mask of the array's number of rows, the read
  \<^verbatim>\<open>A[mask, :]\<close> returns an array with the same columns, as many rows as the mask
  has true entries, and whose row \<open>k\<close> is the array's row at the \<open>k\<close>-th true index
  of the mask (the true indices listed in increasing order); a mask with no true entry
  gives the array with no row, not an error.
\<close>

theorem slice_rows_by_mask:
  assumes "length msk = length (rows A)"
  shows "\<exists>S. color_cut_flux A msk = Inr S \<and> color_cut_ivar A msk = Inr S
    \<and> ncols S = ncols A
    \<and> length (rows S) = count_list msk True
    \<and> length (nonzero msk) = length (rows S)
    \<and> (\<forall>k<length (rows S). rows S ! k = rows A ! (nonzero msk ! k))
    \<and> sorted (nonzero msk) \<and> distinct (nonzero msk)
    \<and> set (nonzero msk) = {i. i < length (rows A) \<and> msk ! i}
    \<and> (count_list msk True = 0 \<longrightarrow> S = \<lparr>ncols = ncols A, rows = []\<rparr>)"
proof -
  let ?S = "\<lparr>ncols = ncols A, rows = map ((!) (rows A)) (nonzero msk)\<rparr>"
  have sel: "getitem_mask A msk = Inr ?S"
    using assms by (rule getitem_mask_by_index)
  have "(=) True = (\<lambda>b::bool. b)"
    by (rule ext) simp
  then have cnt: "length (nonzero msk) = count_list msk True"
    using nonzero_props [of msk] by (simp add: count_list_eq_length_filter)
  have none: "nonzero msk = []" if "count_list msk True = 0"
    using that cnt by simp
  show ?thesis
    using sel cnt none nonzero_props [of msk] assms
    by (auto simp: color_cut_flux_def color_cut_ivar_def)
qed

theorem slice_rows_by_mask_witness:
  "length [True, False, True] = length (rows \<lparr>ncols = 2, rows = [[1, 2], [3, 4], [5, 6 :: int]]\<rparr>)
   \<and> (\<exists>S. color_cut_flux \<lparr>ncols = 2, rows = [[1, 2], [3, 4], [5, 6 :: int]]\<rparr> [True, False, True]
          = Inr S
        \<and> ncols S = 2 \<and> length (rows S) = 2 \<and> rows S ! 1 = [5, 6])"
proof -
  let ?F = "\<lparr>ncols = 2, rows = [[1, 2], [3, 4], [5, 6 :: int]]\<rparr>"
  let ?m = "[True, False, True]"
  have l: "length ?m = length (rows ?F)"
    by simp
  have nz: "nonzero ?m = [0, 2]"
    by code_simp
  from slice_rows_by_mask [OF l]
  obtain S where S: "color_cut_flux ?F ?m = Inr S" "ncols S = ncols ?F"
    "length (rows S) = count_list ?m True"
    "\<forall>k<length (rows S). rows S ! k = rows ?F ! (nonzero ?m ! k)"
    by blast
  have n: "length (rows S) = 2"
    using S(3) by simp
  then have "rows S ! 1 = rows ?F ! (nonzero ?m ! 1)"
    using S(4) by simp
  then have "rows S ! 1 = [5, 6]"
    by (simp add: nz)
  then show ?thesis
    using S(1,2) n by simp
qed

section \<open>The colour cut\<close>

text \<open>The four comparisons of the colour cut at one row.\<close>

definition in_color_box :: "npfloat \<Rightarrow> npfloat \<Rightarrow> bool" where
  "in_color_box gr ri \<longleftrightarrow> fgt gr 0.45 \<and> flt gr 0.55 \<and> fgt ri 0 \<and> flt ri 0.4"

lemma color_cut_same_length:
  assumes "length gr = length ri"
  shows "color_cut gr ri = Inr (map2 in_color_box gr ri)"
proof -
  have "map2 (\<and>) (map2 (\<and>) (map2 (\<and>) (np_gt gr 0.45) (np_lt gr 0.55)) (np_gt ri 0))
          (np_lt ri 0.4)
      = map2 in_color_box gr ri"
    using assms
    by (intro nth_equalityI) (simp_all add: np_gt_def np_lt_def in_color_box_def)
  then show ?thesis
    using assms by (simp add: color_cut_def and_then_def broadcast2_def np_gt_def np_lt_def)
qed

lemma g_r_columns:
  "3 \<le> ncols M \<Longrightarrow> g_r M = Inr (map (\<lambda>row. fsub (row ! 1) (row ! 2)) (rows M))"
  by (simp add: g_r_def and_then_def getitem_col_def broadcast2_def zip_map_map
      zip_same_conv_map)

lemma r_i_columns:
  "4 \<le> ncols M \<Longrightarrow> r_i M = Inr (map (\<lambda>row. fsub (row ! 2) (row ! 3)) (rows M))"
  by (simp add: r_i_def and_then_def getitem_col_def broadcast2_def zip_map_map
      zip_same_conv_map)

lemma color_cut_of_rows:
  "4 \<le> ncols M \<Longrightarrow> color_cut_of M
     = Inr (map (\<lambda>row. in_color_box (fsub (row ! 1) (row ! 2)) (fsub (row ! 2) (row ! 3)))
         (rows M))"
  by (simp add: color_cut_of_def g_r_columns r_i_columns and_then_def color_cut_same_length
      zip_map_map zip_same_conv_map)

lemma fsub_NaN_right: "fsub a NaN = NaN"
  by (cases a) simp_all

lemma in_color_box_NaN:
  "\<not> in_color_box NaN b" "\<not> in_color_box a NaN"
  by (simp_all add: in_color_box_def)




text \<open>
  C5. A comparison of an array with a number is false, and raises nothing, at every
  position where the array holds not-a-number, whatever the number is. So the colour
  cut returns a mask, and the mask is false at every row whose \<open>g - r\<close> or \<open>r - i\<close> is
  not-a-number, in particular at every row where one of the three magnitudes read is
  not-a-number: no such row is selected.
\<close>

theorem nan_rows_are_never_selected:
  "(i < length xs \<and> xs ! i = NaN \<longrightarrow> \<not> np_gt xs c ! i \<and> \<not> np_lt xs c ! i)
   \<and> (length gr = length ri \<longrightarrow>
        (\<exists>m. color_cut gr ri = Inr m \<and> length m = length gr
          \<and> (\<forall>k<length gr. gr ! k = NaN \<or> ri ! k = NaN \<longrightarrow> \<not> m ! k)))
   \<and> (rectangular M \<and> 4 \<le> ncols M \<longrightarrow>
        (\<exists>m. color_cut_of M = Inr m \<and> length m = length (rows M)
          \<and> (\<forall>k<length (rows M).
                rows M ! k ! 1 = NaN \<or> rows M ! k ! 2 = NaN \<or> rows M ! k ! 3 = NaN
                \<longrightarrow> \<not> m ! k)))"
proof (intro conjI impI)
  assume "i < length xs \<and> xs ! i = NaN"
  then show "\<not> np_gt xs c ! i" and "\<not> np_lt xs c ! i"
    by (simp_all add: np_gt_def np_lt_def)
next
  assume l: "length gr = length ri"
  show "\<exists>m. color_cut gr ri = Inr m \<and> length m = length gr
      \<and> (\<forall>k<length gr. gr ! k = NaN \<or> ri ! k = NaN \<longrightarrow> \<not> m ! k)"
    using color_cut_same_length [OF l] l by (auto simp: in_color_box_NaN)
next
  assume h: "rectangular M \<and> 4 \<le> ncols M"
  show "\<exists>m. color_cut_of M = Inr m \<and> length m = length (rows M)
      \<and> (\<forall>k<length (rows M).
            rows M ! k ! 1 = NaN \<or> rows M ! k ! 2 = NaN \<or> rows M ! k ! 3 = NaN
            \<longrightarrow> \<not> m ! k)"
    using color_cut_of_rows [of M] h by (auto simp: in_color_box_NaN fsub_NaN_right)
qed

theorem nan_rows_are_never_selected_witness:
  "[Fin 1, NaN] ! 1 = NaN
   \<and> \<not> np_gt [Fin 1, NaN] 0 ! 1 \<and> \<not> np_lt [Fin 1, NaN] 0 ! 1
   \<and> length [Fin 0.5, NaN] = length [Fin 0.2, Fin 0.2]
   \<and> color_cut [Fin 0.5, NaN] [Fin 0.2, Fin 0.2] = Inr [True, False]"
proof -
  have l: "length [Fin 0.5, NaN] = length [Fin 0.2, Fin 0.2]"
    by simp
  have c: "color_cut [Fin 0.5, NaN] [Fin 0.2, Fin 0.2] = Inr [True, False]"
    by (simp add: color_cut_same_length in_color_box_def)
  have "\<not> np_gt [Fin 1, NaN] 0 ! 1 \<and> \<not> np_lt [Fin 1, NaN] 0 ! 1"
    using nan_rows_are_never_selected [of 1 "[Fin 1, NaN]" 0] by simp
  then show ?thesis
    using l c by simp
qed

section \<open>Labels and features\<close>

lemma class_labels_map:
  "class_labels positive cls = map (\<lambda>c. if c = positive then 1 else 0) cls"
  unfolding class_labels_def
  by (intro nth_equalityI) simp_all

lemma y_example:
  "y \<lparr>CLASS = [''STAR'', ''STAR'', ''QSO'', ''GALAXY'', ''STAR'', ''QSO'', ''GALAXY'', ''STAR'',
      ''QSO'', ''GALAXY'']\<rparr> = [1, 1, 0, 0, 1, 0, 0, 1, 0, 0]"
  by (simp add: y_def class_labels_map)

text \<open>
  C7. For every class column of length \<open>R\<close> and every positive class, the label vector
  has length \<open>R\<close> and its entry \<open>k\<close> is 1 if the class at row \<open>k\<close> is the positive
  class and 0 otherwise. The notebook's \<open>y\<close> is this vector for the positive class
  \<^verbatim>\<open>"STAR"\<close>, the literal of its comprehension; for the ten-row class column
  STAR, STAR, QSO, GALAXY, STAR, QSO, GALAXY, STAR, QSO, GALAXY it is
  \<open>[1,1,0,0,1,0,0,1,0,0]\<close>.
\<close>

theorem labels_mark_the_positive_class:
  "length (class_labels positive cls) = length cls
   \<and> (\<forall>k<length cls. class_labels positive cls ! k = (if cls ! k = positive then 1 else 0))
   \<and> y specObj = class_labels ''STAR'' (CLASS specObj)
   \<and> length (y specObj) = length (CLASS specObj)
   \<and> (\<forall>k<length (CLASS specObj). y specObj ! k = (if CLASS specObj ! k = ''STAR'' then 1 else 0))
   \<and> y \<lparr>CLASS = [''STAR'', ''STAR'', ''QSO'', ''GALAXY'', ''STAR'', ''QSO'', ''GALAXY'', ''STAR'',
        ''QSO'', ''GALAXY'']\<rparr> = [1, 1, 0, 0, 1, 0, 0, 1, 0, 0]"
  using y_example by (simp add: y_def class_labels_def)

theorem labels_mark_the_positive_class_witness:
  "(1::nat) < length [''GALAXY'', ''QSO'', ''STAR'']
   \<and> class_labels ''QSO'' [''GALAXY'', ''QSO'', ''STAR''] ! 1 = 1
   \<and> y \<lparr>CLASS = [''GALAXY'', ''QSO'', ''STAR'']\<rparr> ! 1 = 0
   \<and> length (y \<lparr>CLASS = [''GALAXY'', ''QSO'', ''STAR'']\<rparr>) = 3"
proof -
  let ?c = "[''GALAXY'', ''QSO'', ''STAR'']"
  note t = labels_mark_the_positive_class [of "''QSO''" ?c "\<lparr>CLASS = ?c\<rparr>"]
  from t have q: "\<forall>k<length ?c. class_labels ''QSO'' ?c ! k = (if ?c ! k = ''QSO'' then 1 else 0)"
    by blast
  from t have s: "\<forall>k<length (CLASS \<lparr>CLASS = ?c\<rparr>).
      y \<lparr>CLASS = ?c\<rparr> ! k = (if CLASS \<lparr>CLASS = ?c\<rparr> ! k = ''STAR'' then 1 else 0)"
    by blast
  from t have l: "length (y \<lparr>CLASS = ?c\<rparr>) = length (CLASS \<lparr>CLASS = ?c\<rparr>)"
    by blast
  have "class_labels ''QSO'' ?c ! 1 = 1"
    using q [rule_format, of 1] by simp
  moreover have "y \<lparr>CLASS = ?c\<rparr> ! 1 = 0"
    using s [rule_format, of 1] by simp
  ultimately show ?thesis
    using l by simp
qed

text \<open>
  C4, as stated, fails: the feature matrix \<open>X\<close> is the magnitude column as it is, and
  no cell compares its width with 5. A column of width 4 and one of width 6 are returned
  unchanged, and the cell that binds \<open>X\<close> returns for the width 4.
\<close>

theorem features_width_not_checked_counterexample:
  "X \<lparr>PSFMAG = \<lparr>ncols = 4, rows = [[Fin 1, Fin 2, Fin 3, Fin 4]]\<rparr>\<rparr>
     = \<lparr>ncols = 4, rows = [[Fin 1, Fin 2, Fin 3, Fin 4]]\<rparr>
   \<and> X \<lparr>PSFMAG = \<lparr>ncols = 6, rows = [[Fin 1, Fin 2, Fin 3, Fin 4, Fin 5, Fin 6]]\<rparr>\<rparr>
     = \<lparr>ncols = 6, rows = [[Fin 1, Fin 2, Fin 3, Fin 4, Fin 5, Fin 6]]\<rparr>
   \<and> cell_y_X (namespace_above \<lparr>CLASS = [''STAR'']\<rparr>
        \<lparr>PSFMAG = \<lparr>ncols = 4, rows = [[Fin 1, Fin 2, Fin 3, Fin 4]]\<rparr>\<rparr>)
     = Inr ((namespace_above \<lparr>CLASS = [''STAR'']\<rparr>
          \<lparr>PSFMAG = \<lparr>ncols = 4, rows = [[Fin 1, Fin 2, Fin 3, Fin 4]]\<rparr>\<rparr>)
         (''y'' \<mapsto> VLabels [1],
          ''X'' \<mapsto> VArr2 \<lparr>ncols = 4, rows = [[Fin 1, Fin 2, Fin 3, Fin 4]]\<rparr>))"
  by (simp add: X_def cell_y_X_def lookup_def and_then_def namespace_above_def
      names_bound_above_def y_def class_labels_map)

text \<open>
  C4, amended. For every magnitude column, of any per-row width, the feature matrix is
  the column unmodified: the cell binds \<open>X\<close> to it and raises nothing, the slice
  handed to the classifier has the column's width, and it is the whole column when the
  bound is not below the number of rows. In particular an \<open>R\<close> by 5 column is returned
  unmodified.
\<close>

theorem features_pass_unmodified_for_every_width:
  "X photoPos = PSFMAG photoPos
   \<and> (ns ''Column'' = Some c \<and> ns ''specObj'' = Some (VSpecObj specObj)
        \<and> ns ''photoPos'' = Some (VPhotoPos photoPos)
      \<longrightarrow> cell_y_X ns = Inr (ns(''y'' \<mapsto> VLabels (y specObj), ''X'' \<mapsto> VArr2 (PSFMAG photoPos))))
   \<and> ncols (rows_stop t (X photoPos)) = ncols (PSFMAG photoPos)
   \<and> (int (length (rows (PSFMAG photoPos))) \<le> t \<longrightarrow> rows_stop t (X photoPos) = PSFMAG photoPos)"
  by (simp add: X_def cell_y_X_def lookup_def and_then_def rows_stop_def slice_stop_def
      slice_bound_def)

theorem features_pass_unmodified_for_every_width_witness:
  "namespace_above \<lparr>CLASS = [''QSO'']\<rparr>
       \<lparr>PSFMAG = \<lparr>ncols = 5, rows = [[Fin 1, Fin 2, Fin 3, Fin 4, Fin 5]]\<rparr>\<rparr> ''Column''
     = Some VOther
   \<and> cell_y_X (namespace_above \<lparr>CLASS = [''QSO'']\<rparr>
        \<lparr>PSFMAG = \<lparr>ncols = 5, rows = [[Fin 1, Fin 2, Fin 3, Fin 4, Fin 5]]\<rparr>\<rparr>)
     = Inr ((namespace_above \<lparr>CLASS = [''QSO'']\<rparr>
          \<lparr>PSFMAG = \<lparr>ncols = 5, rows = [[Fin 1, Fin 2, Fin 3, Fin 4, Fin 5]]\<rparr>\<rparr>)
         (''y'' \<mapsto> VLabels (y \<lparr>CLASS = [''QSO'']\<rparr>),
          ''X'' \<mapsto> VArr2 \<lparr>ncols = 5, rows = [[Fin 1, Fin 2, Fin 3, Fin 4, Fin 5]]\<rparr>))
   \<and> rows_stop 70000 (X \<lparr>PSFMAG = \<lparr>ncols = 5, rows = [[Fin 1, Fin 2, Fin 3, Fin 4, Fin 5]]\<rparr>\<rparr>)
     = \<lparr>ncols = 5, rows = [[Fin 1, Fin 2, Fin 3, Fin 4, Fin 5]]\<rparr>"
proof -
  let ?s = "\<lparr>CLASS = [''QSO'']\<rparr>"
  let ?p = "\<lparr>PSFMAG = \<lparr>ncols = 5, rows = [[Fin 1, Fin 2, Fin 3, Fin 4, Fin 5]]\<rparr>\<rparr>"
  let ?ns = "namespace_above ?s ?p :: 'm namespace"
  have c: "?ns ''Column'' = Some VOther"
    by (simp add: namespace_above_def names_bound_above_def)
  have t: "?ns ''specObj'' = Some (VSpecObj ?s)" "?ns ''photoPos'' = Some (VPhotoPos ?p)"
    by (simp_all add: namespace_above_def)
  have l: "int (length (rows (PSFMAG ?p))) \<le> 70000"
    by simp
  note f = features_pass_unmodified_for_every_width [of ?p ?ns VOther ?s 70000]
  from f c t have "cell_y_X ?ns
      = Inr (?ns(''y'' \<mapsto> VLabels (y ?s), ''X'' \<mapsto> VArr2 (PSFMAG ?p)))"
    by blast
  moreover from f l have "rows_stop 70000 (X ?p) = PSFMAG ?p"
    by blast
  ultimately show ?thesis
    using c by simp
qed

section \<open>The classifier cells\<close>

lemma and_then_Inr:
  "and_then r f = Inr w \<longleftrightarrow> (\<exists>v. r = Inr v \<and> f v = Inr w)"
  by (cases r) (simp_all add: and_then_def)

lemma cell_clf_x: "cell_clf ns = Inr ns' \<Longrightarrow> ns' ''x'' = ns ''x''"
  by (auto simp: cell_clf_def)

lemma cell_t_size_x: "cell_t_size ns = Inr ns' \<Longrightarrow> ns' ''x'' = ns ''x''"
  by (auto simp: cell_t_size_def)

lemma cell_y_X_x: "cell_y_X ns = Inr ns' \<Longrightarrow> ns' ''x'' = ns ''x''"
  by (auto simp: cell_y_X_def and_then_Inr)

lemma cell_fit_x:
  "cell_fit fit ns = Inr ns' \<Longrightarrow>
    ns' ''x'' = ns ''x'' \<and> (\<exists>m. ns' ''clf'' = Some (VClf (Some m)))"
  by (auto simp: cell_fit_def and_then_Inr)

lemma cell_predict_unbound:
  "ns ''x'' = None \<Longrightarrow> \<exists>e. cell_predict predict ns = Inl e"
  by (cases "cell_predict predict ns") (auto simp: cell_predict_def and_then_Inr lookup_def)

lemma cell_predict_NameError:
  "ns ''x'' = None \<Longrightarrow> ns ''clf'' = Some (VClf fitted) \<Longrightarrow>
    cell_predict predict ns = Inl (NameError ''x'')"
  by (simp add: cell_predict_def lookup_def and_then_def)

lemma namespace_above_x: "namespace_above s p ''x'' = None"
  by (simp add: namespace_above_def names_bound_above_def)

lemma run_never_returns:
  assumes "ns ''x'' = None"
  shows "\<exists>e. classifier_cells fit predict ns = Inl e"
proof (cases "classifier_cells fit predict ns")
  case (Inl e)
  then show ?thesis by blast
next
  case (Inr w)
  then obtain ns1 ns2 ns3 ns4 ns5 where
    c: "cell_clf ns = Inr ns1" "cell_y_X ns1 = Inr ns2" "cell_t_size ns2 = Inr ns3"
       "cell_fit fit ns3 = Inr ns4" "cell_predict predict ns4 = Inr ns5"
    unfolding classifier_cells_def and_then_Inr by blast
  have "ns4 ''x'' = None"
    using assms cell_clf_x [OF c(1)] cell_y_X_x [OF c(2)] cell_t_size_x [OF c(3)]
      cell_fit_x [OF c(4)] by simp
  then show ?thesis
    using cell_predict_unbound [of ns4 predict] c(5) by auto
qed

lemma run_reaches_predict:
  assumes "ns ''x'' = None"
    and "and_then (cell_clf ns) (\<lambda>ns1. and_then (cell_y_X ns1) (\<lambda>ns2.
           and_then (cell_t_size ns2) (cell_fit fit))) = Inr ns4"
  shows "ns4 ''x'' = None \<and> classifier_cells fit predict ns = Inl (NameError ''x'')"
proof -
  from assms(2) obtain ns1 ns2 ns3 where
    c: "cell_clf ns = Inr ns1" "cell_y_X ns1 = Inr ns2" "cell_t_size ns2 = Inr ns3"
       "cell_fit fit ns3 = Inr ns4"
    unfolding and_then_Inr by blast
  have x: "ns4 ''x'' = None" and "\<exists>m. ns4 ''clf'' = Some (VClf (Some m))"
    using assms(1) cell_clf_x [OF c(1)] cell_y_X_x [OF c(2)] cell_t_size_x [OF c(3)]
      cell_fit_x [OF c(4)] by simp_all
  then have "cell_predict predict ns4 = Inl (NameError ''x'')"
    using cell_predict_NameError by blast
  then show ?thesis
    using x by (simp add: classifier_cells_def c and_then_def)
qed

lemma cells_up_to_fit:
  "and_then (cell_clf (namespace_above s p)) (\<lambda>ns1. and_then (cell_y_X ns1) (\<lambda>ns2.
       and_then (cell_t_size ns2) (cell_fit fit)))
   = and_then (fit (rows_stop t_size (PSFMAG p)) (slice_stop t_size (y s))) (\<lambda>m.
       Inr ((namespace_above s p)(''svm'' \<mapsto> VOther, ''clf'' \<mapsto> VClf None,
         ''y'' \<mapsto> VLabels (y s), ''X'' \<mapsto> VArr2 (PSFMAG p), ''t_size'' \<mapsto> VInt t_size,
         ''clf'' \<mapsto> VClf (Some m))))"
proof -
  let ?ns = "namespace_above s p :: 'a namespace"
  let ?ns1 = "?ns(''svm'' \<mapsto> VOther, ''clf'' \<mapsto> VClf None)"
  let ?ns2 = "?ns1(''y'' \<mapsto> VLabels (y s), ''X'' \<mapsto> VArr2 (PSFMAG p))"
  let ?ns3 = "?ns2(''t_size'' \<mapsto> VInt t_size)"
  have 1: "cell_y_X ?ns1 = Inr ?ns2"
    by (simp add: cell_y_X_def lookup_def and_then_def namespace_above_def
        names_bound_above_def X_def)
  have 2: "cell_fit fit ?ns3
      = and_then (fit (rows_stop t_size (PSFMAG p)) (slice_stop t_size (y s))) (\<lambda>m.
          Inr (?ns3(''clf'' \<mapsto> VClf (Some m))))"
    by (simp add: cell_fit_def lookup_def and_then_def)
  have "and_then (cell_clf ?ns) (\<lambda>ns1. and_then (cell_y_X ns1) (\<lambda>ns2.
       and_then (cell_t_size ns2) (cell_fit fit))) = cell_fit fit ?ns3"
    by (simp add: cell_clf_def 1 cell_t_size_def and_then_def)
  then show ?thesis
    using 2 by simp
qed

text \<open>
  C9. The prediction cell reads the name \<^verbatim>\<open>x\<close>, which no cell of the notebook binds
  (the feature matrix is \<^verbatim>\<open>X\<close>). In every namespace where \<open>x\<close> is unbound the
  prediction cell raises, never returning predictions, and it raises the name error of
  \<open>x\<close> as soon as \<open>clf\<close> is a classifier; the cells before it leave \<open>x\<close> unbound,
  so every run of the classifier cells ends in an error, and the run that gets past the
  training ends in the name error of \<open>x\<close>. From the namespace the cells above leave,
  for every pair of tables and every classifier: if the training returns, the run ends in
  the name error of \<open>x\<close>, and if the training raises, the run ends in that error.
\<close>

theorem prediction_raises_NameError:
  "(ns ''x'' = None \<longrightarrow>
      (\<exists>e. cell_predict predict ns = Inl e)
      \<and> (\<forall>fitted. ns ''clf'' = Some (VClf fitted)
            \<longrightarrow> cell_predict predict ns = Inl (NameError ''x''))
      \<and> (\<exists>e. classifier_cells fit predict ns = Inl e)
      \<and> (\<forall>ns4. and_then (cell_clf ns) (\<lambda>ns1. and_then (cell_y_X ns1) (\<lambda>ns2.
                   and_then (cell_t_size ns2) (cell_fit fit))) = Inr ns4
            \<longrightarrow> ns4 ''x'' = None
              \<and> classifier_cells fit predict ns = Inl (NameError ''x'')))
   \<and> ''x'' \<notin> set names_bound_above
   \<and> namespace_above specObj photoPos ''x'' = None
   \<and> (\<forall>m. fit (rows_stop t_size (PSFMAG photoPos)) (slice_stop t_size (y specObj)) = Inr m
        \<longrightarrow> classifier_cells fit predict (namespace_above specObj photoPos)
            = Inl (NameError ''x''))
   \<and> (\<forall>e. fit (rows_stop t_size (PSFMAG photoPos)) (slice_stop t_size (y specObj)) = Inl e
        \<longrightarrow> classifier_cells fit predict (namespace_above specObj photoPos) = Inl e)"
proof (intro conjI impI allI)
  assume "ns ''x'' = None"
  then show "\<exists>e. cell_predict predict ns = Inl e"
    by (rule cell_predict_unbound)
next
  fix fitted
  assume "ns ''x'' = None" and "ns ''clf'' = Some (VClf fitted)"
  then show "cell_predict predict ns = Inl (NameError ''x'')"
    by (rule cell_predict_NameError)
next
  assume "ns ''x'' = None"
  then show "\<exists>e. classifier_cells fit predict ns = Inl e"
    by (rule run_never_returns)
next
  fix ns4
  assume "ns ''x'' = None"
    and "and_then (cell_clf ns) (\<lambda>ns1. and_then (cell_y_X ns1) (\<lambda>ns2.
           and_then (cell_t_size ns2) (cell_fit fit))) = Inr ns4"
  then show "ns4 ''x'' = None" and "classifier_cells fit predict ns = Inl (NameError ''x'')"
    using run_reaches_predict [of ns fit ns4 predict] by simp_all
next
  show "''x'' \<notin> set names_bound_above"
    by (simp add: names_bound_above_def)
next
  show "namespace_above specObj photoPos ''x'' = None"
    by (rule namespace_above_x)
next
  fix m
  assume "fit (rows_stop t_size (PSFMAG photoPos)) (slice_stop t_size (y specObj)) = Inr m"
  then have "\<exists>ns4. and_then (cell_clf (namespace_above specObj photoPos))
      (\<lambda>ns1. and_then (cell_y_X ns1) (\<lambda>ns2. and_then (cell_t_size ns2) (cell_fit fit)))
      = Inr ns4"
    unfolding cells_up_to_fit by (simp add: and_then_def)
  then show "classifier_cells fit predict (namespace_above specObj photoPos)
      = Inl (NameError ''x'')"
    using run_reaches_predict [of "namespace_above specObj photoPos" fit _ predict]
      namespace_above_x [of specObj photoPos] by blast
next
  fix e
  assume "fit (rows_stop t_size (PSFMAG photoPos)) (slice_stop t_size (y specObj)) = Inl e"
  then have "and_then (cell_clf (namespace_above specObj photoPos))
      (\<lambda>ns1. and_then (cell_y_X ns1) (\<lambda>ns2. and_then (cell_t_size ns2) (cell_fit fit)))
      = Inl e"
    unfolding cells_up_to_fit by (simp add: and_then_def)
  then show "classifier_cells fit predict (namespace_above specObj photoPos) = Inl e"
    unfolding classifier_cells_def
    by (auto simp: and_then_def split: sum.splits)
qed

theorem prediction_raises_NameError_witness:
  "(namespace_above \<lparr>CLASS = [''STAR'', ''QSO'']\<rparr>
       \<lparr>PSFMAG = \<lparr>ncols = 5, rows = [[Fin 1, Fin 2, Fin 3, Fin 4, Fin 5],
                                      [Fin 5, Fin 4, Fin 3, Fin 2, Fin 1]]\<rparr>\<rparr>
      :: unit namespace) ''x'' = None
   \<and> classifier_cells (\<lambda>features labels. Inr ()) (\<lambda>fitted features. Inr [])
       (namespace_above \<lparr>CLASS = [''STAR'', ''QSO'']\<rparr>
         \<lparr>PSFMAG = \<lparr>ncols = 5, rows = [[Fin 1, Fin 2, Fin 3, Fin 4, Fin 5],
                                        [Fin 5, Fin 4, Fin 3, Fin 2, Fin 1]]\<rparr>\<rparr>)
     = Inl (NameError ''x'')
   \<and> cell_predict (\<lambda>fitted features. Inr [])
       ((namespace_above \<lparr>CLASS = [''STAR'', ''QSO'']\<rparr>
         \<lparr>PSFMAG = \<lparr>ncols = 5, rows = [[Fin 1, Fin 2, Fin 3, Fin 4, Fin 5],
                                        [Fin 5, Fin 4, Fin 3, Fin 2, Fin 1]]\<rparr>\<rparr>)
        (''clf'' \<mapsto> VClf (Some ())))
     = Inl (NameError ''x'')"
proof -
  let ?s = "\<lparr>CLASS = [''STAR'', ''QSO'']\<rparr>"
  let ?p = "\<lparr>PSFMAG = \<lparr>ncols = 5, rows = [[Fin 1, Fin 2, Fin 3, Fin 4, Fin 5],
                                             [Fin 5, Fin 4, Fin 3, Fin 2, Fin 1]]\<rparr>\<rparr>"
  let ?ns = "namespace_above ?s ?p :: unit namespace"
  let ?fit = "\<lambda>(features :: npfloat ndarray2) (labels :: int list). Inr () :: py_error + unit"
  let ?predict = "\<lambda>(fitted :: unit) (features :: npfloat ndarray2). Inr [] :: py_error + int list"
  have x: "?ns ''x'' = None"
    by (simp add: namespace_above_def names_bound_above_def)
  then have x': "(?ns(''clf'' \<mapsto> VClf (Some ()))) ''x'' = None"
    by simp
  have c: "(?ns(''clf'' \<mapsto> VClf (Some ()))) ''clf'' = Some (VClf (Some ()))"
    by simp
  have f: "?fit (rows_stop t_size (PSFMAG ?p)) (slice_stop t_size (y ?s)) = Inr ()"
    by simp
  from prediction_raises_NameError [of ?ns ?predict ?fit ?s ?p] f
  have "classifier_cells ?fit ?predict ?ns = Inl (NameError ''x'')"
    by blast
  moreover from prediction_raises_NameError
    [of "?ns(''clf'' \<mapsto> VClf (Some ()))" ?predict ?fit ?s ?p] x' c
  have "cell_predict ?predict (?ns(''clf'' \<mapsto> VClf (Some ()))) = Inl (NameError ''x'')"
    by blast
  ultimately show ?thesis
    using x by simp
qed

section \<open>The split into training and evaluation rows\<close>







end
